theory Spec2Isabelle
  imports Complex_Main
begin

section \<open>Errors\<close>

text \<open>
  Modelled from the spec: the exception classes \<open>OpenAIError\<close> and
  \<open>OpenAIRateLimitError\<close> of \<open>chatgpt_memory.errors\<close>, which is not among the
  sources. The spec gives them as \<open>RateLimited{response_text}\<close> and
  \<open>ServiceError{status_code, response_text}\<close>; the fields below are the arguments
  \<open>openai_request\<close> passes to the constructors (the message, and for \<open>OpenAIError\<close>
  the keyword \<open>status_code\<close>).

  The other constructors are the exceptions that reach this module from outside:
  \<open>ImportError\<close> with its argument tuple, the \<open>JSONDecodeError\<close> of \<open>json.loads\<close>, and
  \<open>Exception\<close> for any other exception of a library call, named by its class
  (a timeout of the transport, a \<open>TypeError\<close> of \<open>json.dumps\<close>, ...).
\<close>

datatype error =
    OpenAIRateLimitError string
  | OpenAIError string int
  | ImportError "string list"
  | JSONDecodeError
  | Exception string

section \<open>Formatting an integer\<close>

text \<open>
  The f-string \<open>f"{response.status_code}"\<close> prints an \<open>int\<close> in decimal, with a
  leading minus sign when it is negative.
\<close>

fun str_nat :: "nat \<Rightarrow> string" where
  "str_nat n = (if n < 10 then [''0123456789'' ! n]
                else str_nat (n div 10) @ [''0123456789'' ! (n mod 10)])"

declare str_nat.simps [simp del]

definition str_int :: "int \<Rightarrow> string" where
  "str_int i = (if i < 0 then CHR ''-'' # str_nat (nat (- i)) else str_nat (nat i))"

section \<open>The tokenizer adapter\<close>

text \<open>
  A tokenizer is an object of type \<open>Any\<close> on which \<open>count_openai_tokens\<close> calls the
  method \<open>encode\<close> or the method \<open>tokenize\<close>. Each method returns a sequence or
  raises; an object that lacks a method raises \<open>AttributeError\<close> there.
\<close>

record tokenizer =
  encode :: "string \<Rightarrow> error + nat list"
  tokenize :: "string \<Rightarrow> error + string list"

text \<open>
  The two libraries \<open>load_openai_tokenizer\<close> may use. \<open>tiktoken\<close> is \<open>None\<close> when the
  package is not installed (the \<open>import\<close> statement raises \<open>ImportError\<close>), and
  otherwise its function \<open>get_encoding\<close>. \<open>from_pretrained\<close> is
  \<open>GPT2TokenizerFast.from_pretrained\<close>. Both functions may raise.
\<close>

record tokenizer_libraries =
  tiktoken :: "(string \<Rightarrow> error + tokenizer) option"
  from_pretrained :: "string \<Rightarrow> error + tokenizer"

text \<open>
  What \<open>load_openai_tokenizer\<close> does to the outside, in order: the attempt to import
  \<open>tiktoken\<close>, and the calls of the two library functions, which are the ones that may
  fetch files over the network. Logging is left out.
\<close>

datatype event = Import_tiktoken | Get_encoding string | From_pretrained string

fun is_library_call :: "event \<Rightarrow> bool" where
  "is_library_call Import_tiktoken = False"
| "is_library_call (Get_encoding _) = True"
| "is_library_call (From_pretrained _) = True"

fun is_tiktoken_event :: "event \<Rightarrow> bool" where
  "is_tiktoken_event Import_tiktoken = True"
| "is_tiktoken_event (Get_encoding _) = True"
| "is_tiktoken_event (From_pretrained _) = False"

definition tiktoken_not_found :: error where
  "tiktoken_not_found = ImportError
     [''The `tiktoken` package not found.'',
      ''To install it use the following:'',
      ''`pip install tiktoken`'']"

text \<open>
  The \<open>try\<close> block holds both the import and the call of \<open>get_encoding\<close>, so an
  \<open>ImportError\<close> raised by either is replaced by the module's own; any other exception
  of \<open>get_encoding\<close> passes through.
\<close>

definition load_openai_tokenizer ::
  "tokenizer_libraries \<Rightarrow> string \<Rightarrow> bool \<Rightarrow> (error + tokenizer) \<times> event list" where
  "load_openai_tokenizer libs tokenizer_name use_tiktoken =
     (if use_tiktoken then
        (case tiktoken libs of
           None \<Rightarrow> (Inl tiktoken_not_found, [Import_tiktoken])
         | Some get_encoding \<Rightarrow>
             (case get_encoding tokenizer_name of
                Inl (ImportError _) \<Rightarrow> Inl tiktoken_not_found
              | Inl e \<Rightarrow> Inl e
              | Inr tokenizer \<Rightarrow> Inr tokenizer,
              [Import_tiktoken, Get_encoding tokenizer_name]))
      else (from_pretrained libs tokenizer_name, [From_pretrained tokenizer_name]))"


section \<open>A single request\<close>

record response =
  status_code :: int
  "text" :: string

datatype timeout = Seconds rat | Connect_read rat rat

text \<open>
  The library functions \<open>openai_request\<close> calls. \<open>json_dumps\<close> raises on a payload that
  cannot be serialised; \<open>requests_request\<close> returns a response or raises (no connection,
  timeout), and its first argument counts the calls made so far, since the server may
  answer each call differently; \<open>json_loads\<close> is \<open>None\<close> where \<open>json.loads\<close> raises
  \<open>JSONDecodeError\<close>.
\<close>

record ('p, 'j) http_libraries =
  json_dumps :: "'p \<Rightarrow> error + string"
  requests_request ::
    "nat \<Rightarrow> string \<Rightarrow> string \<Rightarrow> (string \<rightharpoonup> string) \<Rightarrow> string \<Rightarrow> timeout \<Rightarrow> error + response"
  json_loads :: "string \<Rightarrow> 'j option"

text \<open>
  The body of \<open>openai_request\<close>, without its decorator: one POST, the body parsed, then
  the status code looked at. \<open>n\<close> is the number of calls made before this one.
\<close>

definition openai_request_attempt ::
  "('p, 'j) http_libraries \<Rightarrow> string \<Rightarrow> (string \<rightharpoonup> string) \<Rightarrow> 'p \<Rightarrow> timeout \<Rightarrow> nat \<Rightarrow> error + 'j" where
  "openai_request_attempt libs url headers payload tmo n =
     (case json_dumps libs payload of
        Inl e \<Rightarrow> Inl e
      | Inr data \<Rightarrow>
          (case requests_request libs n ''POST'' url headers data tmo of
             Inl e \<Rightarrow> Inl e
           | Inr response \<Rightarrow>
               (case json_loads libs (text response) of
                  None \<Rightarrow> Inl JSONDecodeError
                | Some res \<Rightarrow>
                    if status_code response \<noteq> 200 then
                      (if status_code response = 429 then
                         Inl (OpenAIRateLimitError
                                (''API rate limit exceeded: '' @ text response))
                       else
                         Inl (OpenAIError
                                (''OpenAI returned an error.\<newline>'' @
                                 ''Status code: '' @ str_int (status_code response) @ ''\<newline>'' @
                                 ''Response body: '' @ text response)
                                (status_code response)))
                    else Inr res)))"

section \<open>Retrying with exponential backoff\<close>

record 'a send_result =
  outcome :: "error + 'a"
  waits :: "rat list"
  calls :: nat

text \<open>
  Modelled from the spec: the decorator \<open>retry_with_exponential_backoff\<close> of
  \<open>chatgpt_memory.utils.reflection\<close>, which is not among the sources. Following the
  spec's retry policy and state machine: an attempt is made; a success ends the call; a
  failure of a retryable kind with attempts remaining waits \<open>base_delay * 2^i\<close> after
  attempt \<open>i\<close> (counted from 0) and attempts again; a failure of a retryable kind with
  no attempt remaining, and a failure of any other kind, end the call with that failure.
  The optional jitter is left out. The policy takes the retryable kinds \<open>errors\<close>, the
  base delay and the maximum number of attempts, and wraps any operation; the operation
  is given the number of attempts made before. The result records the outcome, the
  waits in order, and the number of attempts made.
\<close>

function retry_loop ::
  "(error \<Rightarrow> bool) \<Rightarrow> rat \<Rightarrow> nat \<Rightarrow> (nat \<Rightarrow> error + 'a) \<Rightarrow> nat \<Rightarrow> rat list \<Rightarrow> 'a send_result" where
  "retry_loop errors base_delay max_attempts operation i ws =
     (case operation i of
        Inr v \<Rightarrow> \<lparr>outcome = Inr v, waits = ws, calls = Suc i\<rparr>
      | Inl e \<Rightarrow>
          if errors e \<and> Suc i < max_attempts then
            retry_loop errors base_delay max_attempts operation (Suc i)
              (ws @ [base_delay * 2 ^ i])
          else \<lparr>outcome = Inl e, waits = ws, calls = Suc i\<rparr>)"
  by pat_completeness auto
termination
  by (relation "measure (\<lambda>(errors, base_delay, max_attempts, operation, i, ws). max_attempts - i)")
     auto

declare retry_loop.simps [simp del]

text \<open>
  Modelled from the spec: the decorator applied to an operation, with the keyword
  arguments in the order \<open>openai_request\<close> gives them. The spec's maximum number of
  attempts is what the source passes as \<open>max_retries\<close>. The first attempt is attempt 0
  and no wait has happened before it.
\<close>

definition retry_with_exponential_backoff ::
  "rat \<Rightarrow> nat \<Rightarrow> (error \<Rightarrow> bool) \<Rightarrow> (nat \<Rightarrow> error + 'a) \<Rightarrow> 'a send_result" where
  "retry_with_exponential_backoff backoff_in_seconds max_retries errors operation =
     retry_loop errors backoff_in_seconds max_retries operation 0 []"

text \<open>
  The tuple \<open>errors=(OpenAIRateLimitError, OpenAIError)\<close> of the decorator on
  \<open>openai_request\<close>: the exceptions that are instances of one of the two classes.
\<close>

fun openai_request_errors :: "error \<Rightarrow> bool" where
  "openai_request_errors (OpenAIRateLimitError _) = True"
| "openai_request_errors (OpenAIError _ _) = True"
| "openai_request_errors _ = False"

text \<open>
  The constants of \<open>chatgpt_memory.environment\<close> that the decorator is given; the module
  is not among the sources, so they are parameters.
\<close>

record environment =
  OPENAI_BACKOFF :: rat
  OPENAI_MAX_RETRIES :: nat

text \<open>The decorated \<open>openai_request\<close>, the spec's \<open>send\<close>.\<close>

definition openai_request ::
  "environment \<Rightarrow> ('p, 'j) http_libraries \<Rightarrow> string \<Rightarrow> (string \<rightharpoonup> string) \<Rightarrow> 'p \<Rightarrow> timeout
     \<Rightarrow> 'j send_result" where
  "openai_request env libs url headers payload tmo =
     retry_with_exponential_backoff (OPENAI_BACKOFF env) (OPENAI_MAX_RETRIES env)
       openai_request_errors (openai_request_attempt libs url headers payload tmo)"

section \<open>The prompt\<close>

definition prompt_instructions :: string where
  \<open>prompt_instructions = '' You are an AI Assistant designed to intelligently generate content for a wide variety of tasks, with a focus on sales and marketing materials. Your main task is to provide users with high-quality content based on your extensive knowledge base and understanding of various writing styles.

Incorporate Context: When given context or reference material, utilize it effectively to generate content that aligns with the user's needs. Pay special attention to any context that provides examples of preferred writing style and tone. For instance, if you are asked to generate content related to VNTANA, remember that it is a 3D Infrastructure Platform designed to optimize, convert, and distribute 3D assets for use in various channels. The platform is used by brands, retailers, and technology platforms to create immersive 3D and AR experiences, streamline 3D workflows, and integrate 3D capabilities into existing infrastructure.

Adapt to Writing Styles: Be flexible in adopting different writing styles as desired by the user, such as emulating a specific person's style or following principles for selling and persuasion. Ensure that your generated content maintains the desired tone, format, and structure.

Core Message and Key Points: Keep in mind the core message and key points you need to convey in your generated content. Focus on addressing the user's main objectives and make sure the content is aligned with their goals. For example, if the user's goal is to highlight the benefits of VNTANA's platform, emphasize its ability to automatically optimize 3D models, connect all tools in a 3D workflow, and make 3D accessible to every part of a business.

Wide Variety of Tasks: Be prepared to assist users with various tasks, ranging from email replies to creating sales and marketing materials. Use your knowledge base to provide targeted and relevant content for each specific task.

Generate Content Efficiently: Produce high-quality content that is concise, informative, and impactful. Ensure that your writing is clear, well-structured, and persuasive to help users achieve their desired outcomes.

Remember, the overall purpose is to support users by generating content that effectively addresses their needs and objectives across a wide variety of tasks.

If the AI Assistant does not know the answer to a question, it truthfully says it does not know. The AI Assisaant ONLY uses information contained in the "Relevant Information" section and does not hallucinate.''\<close>

definition get_prompt :: "string \<Rightarrow> string \<Rightarrow> string" where
  "get_prompt message history =
     prompt_instructions @ ''\<newline>\<newline>    '' @ history @
     ''\<newline>    Human: '' @ message @
     ''\<newline>    Assistant:''"

section \<open>Scripted collaborators for the worked examples\<close>

text \<open>
  The theorems below hold for every transport, encoder, decoder and tokenizer. The worked
  examples need concrete ones. The decoder stands in for \<open>json.loads\<close> on the bodies the
  examples use: it decodes the three bodies below as \<open>json.loads\<close> does, and rejects any
  other body, as \<open>json.loads\<close> rejects the plain-text and HTML bodies of the examples.
\<close>

datatype json = JSON_null | JSON_array "json list" | JSON_object "(string \<times> json) list"

definition example_json_loads :: "string \<Rightarrow> json option" where
  "example_json_loads body =
     (if body = ''{}'' then Some (JSON_object [])
      else if body = ''[]'' then Some (JSON_array [])
      else if body = ''null'' then Some JSON_null
      else None)"

text \<open>
  A scripted transport: the payload is a string that is sent as it is, and the \<open>n\<close>-th
  call is answered by \<open>script n\<close>.
\<close>

definition scripted_libraries :: "(nat \<Rightarrow> error + response) \<Rightarrow> (string, json) http_libraries" where
  "scripted_libraries script =
     \<lparr>json_dumps = (\<lambda>payload. Inr payload),
      requests_request = (\<lambda>n method url headers data tmo. script n),
      json_loads = example_json_loads\<rparr>"

text \<open>
  The script that answers with the given status codes in turn, each with the body
  \<open>{}\<close>, and fails to connect once the list is used up.
\<close>

definition status_sequence :: "int list \<Rightarrow> nat \<Rightarrow> error + response" where
  "status_sequence codes n =
     (if n < length codes then Inr \<lparr>status_code = codes ! n, text = ''{}''\<rparr>
      else Inl (Exception ''ConnectionError''))"

text \<open>The script that gives the same response to every call.\<close>

definition always :: "response \<Rightarrow> nat \<Rightarrow> error + response" where
  "always response n = Inr response"

definition example_url :: string where
  "example_url = ''https://api.openai.com/v1/embeddings''"



section \<open>The retry loop\<close>

lemma retry_loop_success:
  "operation i = Inr v \<Longrightarrow>
   retry_loop errors b m operation i ws = \<lparr>outcome = Inr v, waits = ws, calls = Suc i\<rparr>"
  by (subst retry_loop.simps) simp

lemma retry_loop_stop:
  "operation i = Inl e \<Longrightarrow> \<not> (errors e \<and> Suc i < m) \<Longrightarrow>
   retry_loop errors b m operation i ws = \<lparr>outcome = Inl e, waits = ws, calls = Suc i\<rparr>"
  by (subst retry_loop.simps) auto

lemma retry_loop_again:
  "operation i = Inl e \<Longrightarrow> errors e \<Longrightarrow> Suc i < m \<Longrightarrow>
   retry_loop errors b m operation i ws =
   retry_loop errors b m operation (Suc i) (ws @ [b * 2 ^ i])"
  by (subst retry_loop.simps) simp

lemma retry_loop_calls_gt: "i < calls (retry_loop errors b m operation i ws)"
proof (induction errors b m operation i ws rule: retry_loop.induct)
  case (1 errors b m operation i ws)
  show ?case
  proof (cases "operation i")
    case (Inr v)
    then show ?thesis by (simp add: retry_loop_success)
  next
    case (Inl e)
    show ?thesis
    proof (cases "errors e \<and> Suc i < m")
      case True
      with Inl 1 have "Suc i < calls (retry_loop errors b m operation (Suc i) (ws @ [b * 2 ^ i]))"
        by blast
      with Inl True show ?thesis by (simp add: retry_loop_again)
    next
      case False
      with Inl show ?thesis by (simp add: retry_loop_stop)
    qed
  qed
qed

lemma retry_loop_outcome:
  "outcome (retry_loop errors b m operation i ws) =
   operation (calls (retry_loop errors b m operation i ws) - 1)"
proof (induction errors b m operation i ws rule: retry_loop.induct)
  case (1 errors b m operation i ws)
  show ?case
  proof (cases "operation i")
    case (Inr v)
    then show ?thesis by (simp add: retry_loop_success)
  next
    case (Inl e)
    show ?thesis
    proof (cases "errors e \<and> Suc i < m")
      case True
      with Inl 1 show ?thesis by (simp add: retry_loop_again)
    next
      case False
      with Inl show ?thesis by (simp add: retry_loop_stop)
    qed
  qed
qed

lemma retry_loop_waits:
  "waits (retry_loop errors b m operation i ws) =
   ws @ map (\<lambda>k. b * 2 ^ k) [i ..< calls (retry_loop errors b m operation i ws) - 1]"
proof (induction errors b m operation i ws rule: retry_loop.induct)
  case (1 errors b m operation i ws)
  show ?case
  proof (cases "operation i")
    case (Inr v)
    then show ?thesis by (simp add: retry_loop_success)
  next
    case (Inl e)
    show ?thesis
    proof (cases "errors e \<and> Suc i < m")
      case True
      let ?r = "retry_loop errors b m operation (Suc i) (ws @ [b * 2 ^ i])"
      from True Inl 1 have ih: "waits ?r = (ws @ [b * 2 ^ i]) @ map (\<lambda>k. b * 2 ^ k) [Suc i ..< calls ?r - 1]"
        by blast
      have "Suc i < calls ?r" by (rule retry_loop_calls_gt)
      then have "[i ..< calls ?r - 1] = i # [Suc i ..< calls ?r - 1]"
        by (simp add: upt_conv_Cons)
      with ih Inl True show ?thesis by (simp add: retry_loop_again)
    next
      case False
      with Inl show ?thesis by (simp add: retry_loop_stop)
    qed
  qed
qed

text \<open>The attempt at which the loop ends is a success, a failure of a kind that is not
  retried, or the last attempt allowed.\<close>

lemma retry_loop_last:
  "operation (calls (retry_loop errors b m operation i ws) - 1) = Inl e \<Longrightarrow> errors e \<Longrightarrow>
   m \<le> calls (retry_loop errors b m operation i ws)"
proof (induction errors b m operation i ws rule: retry_loop.induct)
  case (1 errors b m operation i ws)
  show ?case
  proof (cases "operation i")
    case (Inr v)
    with 1(2) show ?thesis by (simp add: retry_loop_success)
  next
    case (Inl e')
    show ?thesis
    proof (cases "errors e' \<and> Suc i < m")
      case True
      with Inl 1 show ?thesis by (simp add: retry_loop_again)
    next
      case False
      with Inl 1(2,3) show ?thesis by (auto simp add: retry_loop_stop)
    qed
  qed
qed

text \<open>Every attempt before the last one failed with a retryable kind, with attempts remaining.\<close>

lemma retry_loop_earlier:
  "i \<le> j \<Longrightarrow> Suc j < calls (retry_loop errors b m operation i ws) \<Longrightarrow>
   \<exists>e. operation j = Inl e \<and> errors e \<and> Suc j < m"
proof (induction errors b m operation i ws rule: retry_loop.induct)
  case (1 errors b m operation i ws)
  show ?case
  proof (cases "operation i")
    case (Inr v)
    with 1(2,3) show ?thesis by (simp add: retry_loop_success)
  next
    case (Inl e)
    show ?thesis
    proof (cases "errors e \<and> Suc i < m")
      case True
      show ?thesis
      proof (cases "j = i")
        case True
        with Inl \<open>errors e \<and> Suc i < m\<close> show ?thesis by simp
      next
        case False
        with 1(2) have "Suc i \<le> j" by simp
        moreover from 1(3) Inl True
        have "Suc j < calls (retry_loop errors b m operation (Suc i) (ws @ [b * 2 ^ i]))"
          by (simp add: retry_loop_again)
        ultimately show ?thesis using 1(1) Inl True by blast
      qed
    next
      case False
      with Inl 1(2,3) show ?thesis by (simp add: retry_loop_stop)
    qed
  qed
qed

text \<open>The run of the loop over a row of retryable failures.\<close>

lemma retry_loop_run:
  assumes "\<And>j. i \<le> j \<Longrightarrow> j < k \<Longrightarrow> \<exists>e. operation j = Inl e \<and> errors e \<and> Suc j < m"
    and "i \<le> k"
    and "\<And>e. operation k = Inl e \<Longrightarrow> errors e \<Longrightarrow> m \<le> Suc k"
  shows "retry_loop errors b m operation i ws =
         \<lparr>outcome = operation k, waits = ws @ map (\<lambda>j. b * 2 ^ j) [i ..< k], calls = Suc k\<rparr>"
  using assms
proof (induction "k - i" arbitrary: i ws)
  case 0
  then have "i = k" by simp
  show ?case
  proof (cases "operation k")
    case (Inr v)
    with \<open>i = k\<close> show ?thesis by (simp add: retry_loop_success)
  next
    case (Inl e)
    with 0(4) have "\<not> (errors e \<and> Suc k < m)" by fastforce
    with Inl \<open>i = k\<close> show ?thesis by (simp add: retry_loop_stop)
  qed
next
  case (Suc d)
  then have lt: "i < k" by simp
  with Suc(3) [of i] obtain e where e: "operation i = Inl e" "errors e" "Suc i < m"
    by auto
  have "retry_loop errors b m operation (Suc i) (ws @ [b * 2 ^ i]) =
        \<lparr>outcome = operation k, waits = (ws @ [b * 2 ^ i]) @ map (\<lambda>j. b * 2 ^ j) [Suc i ..< k],
         calls = Suc k\<rparr>"
  proof (rule Suc(1))
    show "d = k - Suc i" using Suc(2) by simp
    show "\<And>j. Suc i \<le> j \<Longrightarrow> j < k \<Longrightarrow> \<exists>e. operation j = Inl e \<and> errors e \<and> Suc j < m"
      using Suc(3) by simp
    show "Suc i \<le> k" using lt by simp
    show "\<And>e. operation k = Inl e \<Longrightarrow> errors e \<Longrightarrow> m \<le> Suc k"
      by (rule Suc(5))
  qed
  with e lt show ?case by (simp add: retry_loop_again upt_conv_Cons)
qed

section \<open>A single request: classification\<close>

text \<open>
  Claim C1, as amended. A single attempt that gets a response with a status other than
  200, whose body \<open>json.loads\<close> decodes, fails with a classified error: status 429 gives
  \<open>OpenAIRateLimitError\<close> with a message that ends with the response text, and any other
  status gives \<open>OpenAIError\<close> carrying that status code, with a message that ends with
  the response text. The body is decoded before the status is looked at, so the claim
  does not hold for a body that \<open>json.loads\<close> rejects.
\<close>

theorem openai_request_attempt_classifies:
  assumes "json_dumps libs payload = Inr data"
    and "requests_request libs n ''POST'' url headers data tmo = Inr response"
    and "json_loads libs (text response) = Some res"
    and "status_code response \<noteq> 200"
  shows "(status_code response = 429 \<longrightarrow>
            (\<exists>prefix. openai_request_attempt libs url headers payload tmo n =
                       Inl (OpenAIRateLimitError (prefix @ text response)))) \<and>
         (status_code response \<noteq> 429 \<longrightarrow>
            (\<exists>prefix. openai_request_attempt libs url headers payload tmo n =
                       Inl (OpenAIError (prefix @ text response) (status_code response)))) \<and>
         (\<exists>e. openai_request_attempt libs url headers payload tmo n = Inl e \<and>
              openai_request_errors e)"
proof (cases "status_code response = 429")
  case True
  with assms have "openai_request_attempt libs url headers payload tmo n =
      Inl (OpenAIRateLimitError (''API rate limit exceeded: '' @ text response))"
    by (simp add: openai_request_attempt_def)
  with True show ?thesis by auto
next
  case False
  with assms have "openai_request_attempt libs url headers payload tmo n =
      Inl (OpenAIError ((''OpenAI returned an error.\<newline>'' @ ''Status code: '' @
             str_int (status_code response) @ ''\<newline>'' @ ''Response body: '') @ text response)
           (status_code response))"
    by (simp add: openai_request_attempt_def)
  with False show ?thesis by (metis openai_request_errors.simps(2))
qed

text \<open>
  The amended claim at two responses, one with status 429 and one with status 500.
\<close>

theorem openai_request_attempt_classifies_witness:
  "json_dumps (scripted_libraries (status_sequence [429, 500])) ''{}'' = Inr ''{}'' \<and>
   requests_request (scripted_libraries (status_sequence [429, 500])) 0 ''POST''
     example_url Map.empty ''{}'' (Seconds 30) = Inr \<lparr>status_code = 429, text = ''{}''\<rparr> \<and>
   requests_request (scripted_libraries (status_sequence [429, 500])) 1 ''POST''
     example_url Map.empty ''{}'' (Seconds 30) = Inr \<lparr>status_code = 500, text = ''{}''\<rparr> \<and>
   json_loads (scripted_libraries (status_sequence [429, 500])) ''{}'' = Some (JSON_object []) \<and>
   (\<exists>prefix. openai_request_attempt (scripted_libraries (status_sequence [429, 500]))
       example_url Map.empty ''{}'' (Seconds 30) 0 = Inl (OpenAIRateLimitError (prefix @ ''{}''))) \<and>
   (\<exists>prefix. openai_request_attempt (scripted_libraries (status_sequence [429, 500]))
       example_url Map.empty ''{}'' (Seconds 30) 1 = Inl (OpenAIError (prefix @ ''{}'') 500))"
  using
    openai_request_attempt_classifies
      [of "scripted_libraries (status_sequence [429, 500])" "''{}''" "''{}''" 0
          example_url Map.empty "Seconds 30" "\<lparr>status_code = 429, text = ''{}''\<rparr>" "JSON_object []"]
    openai_request_attempt_classifies
      [of "scripted_libraries (status_sequence [429, 500])" "''{}''" "''{}''" 1
          example_url Map.empty "Seconds 30" "\<lparr>status_code = 500, text = ''{}''\<rparr>" "JSON_object []"]
  by (simp add: scripted_libraries_def status_sequence_def example_json_loads_def)

text \<open>
  A response with status 429 and the plain-text body \<open>Too Many Requests\<close>: the attempt
  fails with \<open>JSONDecodeError\<close>, which is not a classified error.
\<close>

theorem openai_request_attempt_plain_text_429:
  "openai_request_attempt
     (scripted_libraries (always \<lparr>status_code = 429, text = ''Too Many Requests''\<rparr>))
     example_url Map.empty ''{}'' (Seconds 30) 0 = Inl JSONDecodeError \<and>
   \<not> openai_request_errors JSONDecodeError"
  by (simp add: openai_request_attempt_def scripted_libraries_def always_def example_json_loads_def)

section \<open>The retry policy of \<open>openai_request\<close>\<close>

text \<open>
  Claim C2. The retryable kinds are exactly \<open>OpenAIRateLimitError\<close> and \<open>OpenAIError\<close>.
  Whenever \<open>openai_request\<close> makes attempt \<open>i\<close> and it fails: a failure of one of the two
  kinds with attempts remaining is followed by another attempt, and a failure of any
  other kind is the outcome of the call, with attempt \<open>i\<close> the last one made.
\<close>

theorem retry_policy_kinds:
  assumes "i < calls (openai_request env libs url headers payload tmo)"
    and "openai_request_attempt libs url headers payload tmo i = Inl e"
  shows "(openai_request_errors e \<longleftrightarrow>
            (\<exists>msg. e = OpenAIRateLimitError msg) \<or> (\<exists>msg code. e = OpenAIError msg code)) \<and>
         (openai_request_errors e \<and> Suc i < OPENAI_MAX_RETRIES env \<longrightarrow>
            Suc i < calls (openai_request env libs url headers payload tmo)) \<and>
         (\<not> openai_request_errors e \<longrightarrow>
            calls (openai_request env libs url headers payload tmo) = Suc i \<and>
            outcome (openai_request env libs url headers payload tmo) = Inl e)"
proof -
  let ?op = "openai_request_attempt libs url headers payload tmo"
  let ?r = "retry_loop openai_request_errors (OPENAI_BACKOFF env) (OPENAI_MAX_RETRIES env) ?op 0 []"
  have r: "openai_request env libs url headers payload tmo = ?r"
    by (simp add: openai_request_def retry_with_exponential_backoff_def)
  have kinds: "openai_request_errors e \<longleftrightarrow>
      (\<exists>msg. e = OpenAIRateLimitError msg) \<or> (\<exists>msg code. e = OpenAIError msg code)"
    by (cases e) simp_all
  have again: "Suc i < calls ?r" if "openai_request_errors e" "Suc i < OPENAI_MAX_RETRIES env"
  proof (rule ccontr)
    assume "\<not> Suc i < calls ?r"
    with assms(1) r have c: "calls ?r = Suc i" by simp
    with assms(2) have "?op (calls ?r - 1) = Inl e" by simp
    from retry_loop_last [of ?op openai_request_errors "OPENAI_BACKOFF env"
        "OPENAI_MAX_RETRIES env" 0 "[]" e, OF this that(1)] c that(2)
    show False by simp
  qed
  have stop: "calls ?r = Suc i \<and> outcome ?r = Inl e" if "\<not> openai_request_errors e"
  proof -
    have "\<not> Suc i < calls ?r"
    proof
      assume "Suc i < calls ?r"
      then obtain e' where "?op i = Inl e'" "openai_request_errors e'"
        using retry_loop_earlier [of 0 i openai_request_errors "OPENAI_BACKOFF env"
            "OPENAI_MAX_RETRIES env" ?op "[]"] by auto
      with assms(2) that show False by simp
    qed
    with assms(1) r have c: "calls ?r = Suc i" by simp
    moreover have "outcome ?r = ?op (calls ?r - 1)" by (rule retry_loop_outcome)
    ultimately show ?thesis using assms(2) by simp
  qed
  from kinds again stop show ?thesis unfolding r by blast
qed

text \<open>
  A transport that answers 429, then 500, then cannot be reached: the two classified
  failures are retried and the connection failure of the third attempt is returned at
  once.
\<close>

theorem retry_policy_kinds_witness:
  "2 < calls (openai_request \<lparr>OPENAI_BACKOFF = 3, OPENAI_MAX_RETRIES = 6\<rparr>
     (scripted_libraries (status_sequence [429, 500])) example_url Map.empty ''{}'' (Seconds 30)) \<and>
   openai_request_attempt (scripted_libraries (status_sequence [429, 500])) example_url Map.empty
     ''{}'' (Seconds 30) 2 = Inl (Exception ''ConnectionError'') \<and>
   \<not> openai_request_errors (Exception ''ConnectionError'') \<and>
   calls (openai_request \<lparr>OPENAI_BACKOFF = 3, OPENAI_MAX_RETRIES = 6\<rparr>
     (scripted_libraries (status_sequence [429, 500])) example_url Map.empty ''{}'' (Seconds 30)) = 3 \<and>
   outcome (openai_request \<lparr>OPENAI_BACKOFF = 3, OPENAI_MAX_RETRIES = 6\<rparr>
     (scripted_libraries (status_sequence [429, 500])) example_url Map.empty ''{}'' (Seconds 30)) =
     Inl (Exception ''ConnectionError'')"
proof -
  let ?libs = "scripted_libraries (status_sequence [429, 500])"
  let ?env = "\<lparr>OPENAI_BACKOFF = 3, OPENAI_MAX_RETRIES = 6\<rparr>"
  have r: "openai_request ?env ?libs example_url Map.empty ''{}'' (Seconds 30) =
           \<lparr>outcome = Inl (Exception ''ConnectionError''), waits = [3, 6], calls = 3\<rparr>"
    by code_simp
  have a: "openai_request_attempt ?libs example_url Map.empty ''{}'' (Seconds 30) 2 =
           Inl (Exception ''ConnectionError'')"
    by code_simp
  have c: "2 < calls (openai_request ?env ?libs example_url Map.empty ''{}'' (Seconds 30))"
    by (simp add: r)
  from retry_policy_kinds [OF c a] a c show ?thesis by simp
qed

text \<open>
  Claim C3, as amended. With at least one attempt allowed, when every attempt fails with
  a retryable kind, \<open>openai_request\<close> makes exactly \<open>OPENAI_MAX_RETRIES\<close> attempts and its
  outcome is the failure of the last attempt, unchanged. In particular, when the transport
  answers every call with status 429 and a body that \<open>json.loads\<close> decodes, the outcome
  after exactly \<open>OPENAI_MAX_RETRIES\<close> attempts is the \<open>OpenAIRateLimitError\<close> of the last
  response.
\<close>

theorem retries_exhausted:
  assumes "0 < OPENAI_MAX_RETRIES env"
  shows "((\<forall>n. \<exists>e. openai_request_attempt libs url headers payload tmo n = Inl e \<and>
                 openai_request_errors e) \<longrightarrow>
            calls (openai_request env libs url headers payload tmo) = OPENAI_MAX_RETRIES env \<and>
            outcome (openai_request env libs url headers payload tmo) =
              openai_request_attempt libs url headers payload tmo (OPENAI_MAX_RETRIES env - 1)) \<and>
         (json_dumps libs payload = Inr data \<and>
          (\<forall>n. requests_request libs n ''POST'' url headers data tmo = Inr (responses n) \<and>
               status_code (responses n) = 429 \<and>
               json_loads libs (text (responses n)) \<noteq> None) \<longrightarrow>
            calls (openai_request env libs url headers payload tmo) = OPENAI_MAX_RETRIES env \<and>
            outcome (openai_request env libs url headers payload tmo) =
              Inl (OpenAIRateLimitError
                     (''API rate limit exceeded: '' @
                      text (responses (OPENAI_MAX_RETRIES env - 1)))))"
proof -
  let ?op = "openai_request_attempt libs url headers payload tmo"
  let ?m = "OPENAI_MAX_RETRIES env"
  have general: "openai_request env libs url headers payload tmo =
      \<lparr>outcome = ?op (?m - 1),
       waits = [] @ map (\<lambda>j. OPENAI_BACKOFF env * 2 ^ j) [0 ..< ?m - 1],
       calls = Suc (?m - 1)\<rparr>"
    if all: "\<forall>n. \<exists>e. ?op n = Inl e \<and> openai_request_errors e"
    unfolding openai_request_def retry_with_exponential_backoff_def
  proof (rule retry_loop_run)
    fix j assume "j < ?m - 1"
    with all show "\<exists>e. ?op j = Inl e \<and> openai_request_errors e \<and> Suc j < ?m"
      by (simp add: less_diff_conv)
  next
    show "0 \<le> ?m - 1" by simp
  next
    fix e show "?m \<le> Suc (?m - 1)" by simp
  qed
  have first: "calls (openai_request env libs url headers payload tmo) = ?m \<and>
      outcome (openai_request env libs url headers payload tmo) = ?op (?m - 1)"
    if "\<forall>n. \<exists>e. ?op n = Inl e \<and> openai_request_errors e"
    using general [OF that] assms by simp
  have second: "calls (openai_request env libs url headers payload tmo) = ?m \<and>
      outcome (openai_request env libs url headers payload tmo) =
        Inl (OpenAIRateLimitError (''API rate limit exceeded: '' @ text (responses (?m - 1))))"
    if d: "json_dumps libs payload = Inr data"
      and t: "\<forall>n. requests_request libs n ''POST'' url headers data tmo = Inr (responses n) \<and>
               status_code (responses n) = 429 \<and>
               json_loads libs (text (responses n)) \<noteq> None"
  proof -
    have op: "?op n = Inl (OpenAIRateLimitError (''API rate limit exceeded: '' @ text (responses n)))"
      for n
      using d t by (auto simp add: openai_request_attempt_def split: option.splits)
    then have "\<forall>n. \<exists>e. ?op n = Inl e \<and> openai_request_errors e" by simp
    from first [OF this] op show ?thesis by simp
  qed
  from first second show ?thesis by blast
qed

text \<open>
  A transport that answers every call with status 429 and the body \<open>{}\<close>, with six
  attempts allowed.
\<close>

theorem retries_exhausted_witness:
  "0 < OPENAI_MAX_RETRIES \<lparr>OPENAI_BACKOFF = 3, OPENAI_MAX_RETRIES = 6\<rparr> \<and>
   json_dumps (scripted_libraries (always \<lparr>status_code = 429, text = ''{}''\<rparr>)) ''{}'' = Inr ''{}'' \<and>
   (\<forall>n. requests_request (scripted_libraries (always \<lparr>status_code = 429, text = ''{}''\<rparr>)) n
          ''POST'' example_url Map.empty ''{}'' (Seconds 30) = Inr \<lparr>status_code = 429, text = ''{}''\<rparr> \<and>
        json_loads (scripted_libraries (always \<lparr>status_code = 429, text = ''{}''\<rparr>)) ''{}'' \<noteq> None \<and>
        openai_request_attempt (scripted_libraries (always \<lparr>status_code = 429, text = ''{}''\<rparr>))
          example_url Map.empty ''{}'' (Seconds 30) n =
          Inl (OpenAIRateLimitError ''API rate limit exceeded: {}'')) \<and>
   openai_request_errors (OpenAIRateLimitError ''API rate limit exceeded: {}'') \<and>
   calls (openai_request \<lparr>OPENAI_BACKOFF = 3, OPENAI_MAX_RETRIES = 6\<rparr>
     (scripted_libraries (always \<lparr>status_code = 429, text = ''{}''\<rparr>)) example_url Map.empty ''{}''
     (Seconds 30)) = 6 \<and>
   outcome (openai_request \<lparr>OPENAI_BACKOFF = 3, OPENAI_MAX_RETRIES = 6\<rparr>
     (scripted_libraries (always \<lparr>status_code = 429, text = ''{}''\<rparr>)) example_url Map.empty ''{}''
     (Seconds 30)) = Inl (OpenAIRateLimitError ''API rate limit exceeded: {}'')"
proof -
  let ?r = "\<lparr>status_code = 429, text = ''{}''\<rparr>"
  let ?libs = "scripted_libraries (always ?r)"
  let ?env = "\<lparr>OPENAI_BACKOFF = 3, OPENAI_MAX_RETRIES = 6\<rparr>"
  have m: "0 < OPENAI_MAX_RETRIES ?env" by simp
  have d: "json_dumps ?libs ''{}'' = Inr ''{}''" by (simp add: scripted_libraries_def)
  have t: "requests_request ?libs n ''POST'' example_url Map.empty ''{}'' (Seconds 30) = Inr ?r" for n
    by (simp add: scripted_libraries_def always_def)
  have l: "json_loads ?libs ''{}'' \<noteq> None"
    by (simp add: scripted_libraries_def example_json_loads_def)
  have a: "openai_request_attempt ?libs example_url Map.empty ''{}'' (Seconds 30) n =
           Inl (OpenAIRateLimitError ''API rate limit exceeded: {}'')" for n
    by (simp add: openai_request_attempt_def scripted_libraries_def always_def
        example_json_loads_def)
  from retries_exhausted [OF m, of ?libs example_url Map.empty "''{}''" "Seconds 30" "''{}''"
      "\<lambda>n. ?r"] d t l a
  show ?thesis by simp
qed

text \<open>
  A transport that answers every call with status 429 and the plain-text body
  \<open>Too Many Requests\<close>: the call ends after one attempt with \<open>JSONDecodeError\<close>, not with
  \<open>OpenAIRateLimitError\<close> after six attempts.
\<close>

theorem retries_not_exhausted_on_plain_text_429:
  "openai_request \<lparr>OPENAI_BACKOFF = 3, OPENAI_MAX_RETRIES = 6\<rparr>
     (scripted_libraries (always \<lparr>status_code = 429, text = ''Too Many Requests''\<rparr>))
     example_url Map.empty ''{}'' (Seconds 30) =
   \<lparr>outcome = Inl JSONDecodeError, waits = [], calls = 1\<rparr>"
  by code_simp

text \<open>
  Claim C4. Whenever \<open>openai_request\<close> makes attempt \<open>i\<close> (counted from 0), it fails with a
  retryable kind and an attempt remains, attempt \<open>i + 1\<close> is made and the wait before it,
  the \<open>i\<close>-th wait, is \<open>OPENAI_BACKOFF * 2^i\<close>. Each wait is twice the one before, and
  there is one wait between each two attempts.
\<close>

theorem backoff_schedule:
  "(\<forall>i e. i < calls (openai_request env libs url headers payload tmo) \<and>
          openai_request_attempt libs url headers payload tmo i = Inl e \<and>
          openai_request_errors e \<and> Suc i < OPENAI_MAX_RETRIES env \<longrightarrow>
          Suc i < calls (openai_request env libs url headers payload tmo) \<and>
          waits (openai_request env libs url headers payload tmo) ! i = OPENAI_BACKOFF env * 2 ^ i) \<and>
   (\<forall>i. Suc i < length (waits (openai_request env libs url headers payload tmo)) \<longrightarrow>
        waits (openai_request env libs url headers payload tmo) ! Suc i =
        2 * waits (openai_request env libs url headers payload tmo) ! i) \<and>
   length (waits (openai_request env libs url headers payload tmo)) =
     calls (openai_request env libs url headers payload tmo) - 1"
proof -
  let ?op = "openai_request_attempt libs url headers payload tmo"
  let ?b = "OPENAI_BACKOFF env"
  let ?m = "OPENAI_MAX_RETRIES env"
  let ?r = "retry_loop openai_request_errors ?b ?m ?op 0 []"
  have r: "openai_request env libs url headers payload tmo = ?r"
    by (simp add: openai_request_def retry_with_exponential_backoff_def)
  have w: "waits ?r = map (\<lambda>k. ?b * 2 ^ k) [0 ..< calls ?r - 1]"
    using retry_loop_waits [of openai_request_errors ?b ?m ?op 0 "[]"] by simp
  have len: "length (waits ?r) = calls ?r - 1" by (simp add: w)
  have nth: "waits ?r ! i = ?b * 2 ^ i" if "i < calls ?r - 1" for i
    using that by (subst w) simp
  have double: "waits ?r ! Suc i = 2 * waits ?r ! i" if "Suc i < length (waits ?r)" for i
  proof -
    from that len have "Suc i < calls ?r - 1" "i < calls ?r - 1" by simp_all
    then show ?thesis by (simp add: nth)
  qed
  have next_attempt: "Suc i < calls ?r \<and> waits ?r ! i = ?b * 2 ^ i"
    if "i < calls ?r" "?op i = Inl e" "openai_request_errors e" "Suc i < ?m" for i e
  proof -
    have "Suc i < calls ?r"
    proof (rule ccontr)
      assume "\<not> Suc i < calls ?r"
      with that(1) have c: "calls ?r = Suc i" by simp
      with that(2) have "?op (calls ?r - 1) = Inl e" by simp
      from retry_loop_last [of ?op openai_request_errors ?b ?m 0 "[]" e, OF this that(3)] c that(4)
      show False by simp
    qed
    then show ?thesis by (simp add: nth)
  qed
  from next_attempt double len show ?thesis unfolding r by blast
qed

text \<open>
  The example of the claim: three attempts allowed, a base delay of one second and a
  transport that answers 429, 429, 200. The call succeeds and the waits are 1 and 2.
\<close>

theorem backoff_schedule_example:
  "openai_request \<lparr>OPENAI_BACKOFF = 1, OPENAI_MAX_RETRIES = 3\<rparr>
     (scripted_libraries (status_sequence [429, 429, 200])) example_url Map.empty ''{}'' (Seconds 30) =
   \<lparr>outcome = Inr (JSON_object []), waits = [1, 2], calls = 3\<rparr> \<and>
   openai_request_attempt (scripted_libraries (status_sequence [429, 429, 200])) example_url
     Map.empty ''{}'' (Seconds 30) 1 = Inl (OpenAIRateLimitError ''API rate limit exceeded: {}'') \<and>
   openai_request_errors (OpenAIRateLimitError ''API rate limit exceeded: {}'') \<and>
   Suc 1 < OPENAI_MAX_RETRIES \<lparr>OPENAI_BACKOFF = 1, OPENAI_MAX_RETRIES = 3\<rparr> \<and>
   waits (openai_request \<lparr>OPENAI_BACKOFF = 1, OPENAI_MAX_RETRIES = 3\<rparr>
     (scripted_libraries (status_sequence [429, 429, 200])) example_url Map.empty ''{}'' (Seconds 30))
     ! 1 = OPENAI_BACKOFF \<lparr>OPENAI_BACKOFF = 1, OPENAI_MAX_RETRIES = 3\<rparr> * 2 ^ 1 \<and>
   waits (openai_request \<lparr>OPENAI_BACKOFF = 1, OPENAI_MAX_RETRIES = 3\<rparr>
     (scripted_libraries (status_sequence [429, 429, 200])) example_url Map.empty ''{}'' (Seconds 30))
     ! Suc 0 =
   2 * waits (openai_request \<lparr>OPENAI_BACKOFF = 1, OPENAI_MAX_RETRIES = 3\<rparr>
     (scripted_libraries (status_sequence [429, 429, 200])) example_url Map.empty ''{}'' (Seconds 30))
     ! 0"
proof -
  let ?libs = "scripted_libraries (status_sequence [429, 429, 200])"
  let ?env = "\<lparr>OPENAI_BACKOFF = 1, OPENAI_MAX_RETRIES = 3\<rparr>"
  let ?r = "openai_request ?env ?libs example_url Map.empty ''{}'' (Seconds 30)"
  have r: "?r = \<lparr>outcome = Inr (JSON_object []), waits = [1, 2], calls = 3\<rparr>"
    by code_simp
  have a: "openai_request_attempt ?libs example_url Map.empty ''{}'' (Seconds 30) 1 =
           Inl (OpenAIRateLimitError ''API rate limit exceeded: {}'')"
    by code_simp
  have c: "1 < calls ?r" "Suc 0 < length (waits ?r)" by (simp_all add: r)
  note s = backoff_schedule [of ?env ?libs example_url Map.empty "''{}''" "Seconds 30"]
  from s a c have "waits ?r ! 1 = OPENAI_BACKOFF ?env * 2 ^ 1"
    by (metis One_nat_def Suc_1 lessI numeral_3_eq_3 openai_request_errors.simps(1)
        environment.select_convs(2))
  moreover from s c have "waits ?r ! Suc 0 = 2 * waits ?r ! 0" by blast
  ultimately show ?thesis using r a by simp
qed

text \<open>
  Claim C5. For every payload, when the transport answers the first call with status 200
  and a body that \<open>json.loads\<close> decodes, \<open>openai_request\<close> returns the decoded body after one
  attempt and no wait.
\<close>

theorem openai_request_success_first_attempt:
  assumes "json_dumps libs payload = Inr data"
    and "requests_request libs 0 ''POST'' url headers data tmo = Inr response"
    and "status_code response = 200"
    and "json_loads libs (text response) = Some res"
  shows "openai_request env libs url headers payload tmo =
         \<lparr>outcome = Inr res, waits = [], calls = 1\<rparr>"
proof -
  from assms have "openai_request_attempt libs url headers payload tmo 0 = Inr res"
    by (simp add: openai_request_attempt_def)
  then show ?thesis
    by (simp add: openai_request_def retry_with_exponential_backoff_def retry_loop_success)
qed

text \<open>
  A transport that answers 200 with the body \<open>{}\<close>.
\<close>

theorem openai_request_success_first_attempt_witness:
  "json_dumps (scripted_libraries (status_sequence [200])) ''{}'' = Inr ''{}'' \<and>
   requests_request (scripted_libraries (status_sequence [200])) 0 ''POST'' example_url Map.empty
     ''{}'' (Seconds 30) = Inr \<lparr>status_code = 200, text = ''{}''\<rparr> \<and>
   status_code \<lparr>status_code = 200, text = ''{}''\<rparr> = 200 \<and>
   json_loads (scripted_libraries (status_sequence [200])) (text \<lparr>status_code = 200, text = ''{}''\<rparr>)
     = Some (JSON_object []) \<and>
   openai_request \<lparr>OPENAI_BACKOFF = 3, OPENAI_MAX_RETRIES = 6\<rparr>
     (scripted_libraries (status_sequence [200])) example_url Map.empty ''{}'' (Seconds 30) =
   \<lparr>outcome = Inr (JSON_object []), waits = [], calls = 1\<rparr>"
  using openai_request_success_first_attempt
    [of "scripted_libraries (status_sequence [200])" "''{}''" "''{}''" example_url Map.empty
        "Seconds 30" "\<lparr>status_code = 200, text = ''{}''\<rparr>" "JSON_object []"
        "\<lparr>OPENAI_BACKOFF = 3, OPENAI_MAX_RETRIES = 6\<rparr>"]
  by (simp add: scripted_libraries_def status_sequence_def example_json_loads_def)

text \<open>
  Claim C6. A single attempt decodes the body of the response before it looks at the
  status code: whatever the status code, a response whose body \<open>json.loads\<close> rejects makes
  the attempt fail with \<open>JSONDecodeError\<close>, which is not among the retryable kinds.
\<close>

theorem openai_request_attempt_parses_first:
  assumes "json_dumps libs payload = Inr data"
    and "requests_request libs n ''POST'' url headers data tmo = Inr response"
    and "json_loads libs (text response) = None"
  shows "openai_request_attempt libs url headers payload tmo n = Inl JSONDecodeError \<and>
         \<not> openai_request_errors JSONDecodeError"
  using assms by (simp add: openai_request_attempt_def)

text \<open>
  A response with status 502 and an HTML body.
\<close>

theorem openai_request_attempt_parses_first_witness:
  "json_dumps (scripted_libraries (always \<lparr>status_code = 502, text = ''<html>Bad Gateway</html>''\<rparr>))
     ''{}'' = Inr ''{}'' \<and>
   requests_request
     (scripted_libraries (always \<lparr>status_code = 502, text = ''<html>Bad Gateway</html>''\<rparr>))
     0 ''POST'' example_url Map.empty ''{}'' (Seconds 30) =
     Inr \<lparr>status_code = 502, text = ''<html>Bad Gateway</html>''\<rparr> \<and>
   json_loads (scripted_libraries (always \<lparr>status_code = 502, text = ''<html>Bad Gateway</html>''\<rparr>))
     (text \<lparr>status_code = 502, text = ''<html>Bad Gateway</html>''\<rparr>) = None \<and>
   openai_request_attempt
     (scripted_libraries (always \<lparr>status_code = 502, text = ''<html>Bad Gateway</html>''\<rparr>))
     example_url Map.empty ''{}'' (Seconds 30) 0 = Inl JSONDecodeError"
  using openai_request_attempt_parses_first
    [of "scripted_libraries (always \<lparr>status_code = 502, text = ''<html>Bad Gateway</html>''\<rparr>)"
        "''{}''" "''{}''" 0 example_url Map.empty "Seconds 30"
        "\<lparr>status_code = 502, text = ''<html>Bad Gateway</html>''\<rparr>"]
  by (simp add: scripted_libraries_def always_def example_json_loads_def)

section \<open>The tokenizer adapter: properties\<close>

text \<open>
  Claim C7. For every tokenizer name, \<open>load_openai_tokenizer\<close> with \<open>use_tiktoken\<close> true,
  when the \<open>tiktoken\<close> package is not installed, fails with the \<open>ImportError\<close> that names
  \<open>tiktoken\<close>. The only thing it has done is the failed import: no library function was
  called, so nothing was fetched, and nothing was tried a second time. The error is not
  among the kinds the retry policy retries.
\<close>

theorem load_openai_tokenizer_missing_tiktoken:
  "load_openai_tokenizer (libs\<lparr>tiktoken := None\<rparr>) tokenizer_name True =
     (Inl (ImportError [''The `tiktoken` package not found.'',
                        ''To install it use the following:'',
                        ''`pip install tiktoken`'']),
      [Import_tiktoken]) \<and>
   filter is_library_call (snd (load_openai_tokenizer (libs\<lparr>tiktoken := None\<rparr>) tokenizer_name True))
     = [] \<and>
   \<not> openai_request_errors
        (ImportError [''The `tiktoken` package not found.'',
                      ''To install it use the following:'',
                      ''`pip install tiktoken`''])"
  by (simp add: load_openai_tokenizer_def tiktoken_not_found_def)




text \<open>
  Claim C9. For every tokenizer name, \<open>load_openai_tokenizer\<close> with \<open>use_tiktoken\<close> false
  returns what \<open>GPT2TokenizerFast.from_pretrained(tokenizer_name)\<close> returns (or raises what
  it raises), neither imports nor calls \<open>tiktoken\<close>, and gives the same result whether
  or not \<open>tiktoken\<close> is installed.
\<close>

theorem load_openai_tokenizer_fallback:
  "load_openai_tokenizer libs tokenizer_name False =
     (from_pretrained libs tokenizer_name, [From_pretrained tokenizer_name]) \<and>
   filter is_tiktoken_event (snd (load_openai_tokenizer libs tokenizer_name False)) = [] \<and>
   load_openai_tokenizer (libs\<lparr>tiktoken := available\<rparr>) tokenizer_name False =
     load_openai_tokenizer libs tokenizer_name False"
  by (simp add: load_openai_tokenizer_def)

section \<open>The prompt: shape\<close>

text \<open>
  Claim C10. For every message and history, the prompt holds the history as it is, then
  a new line with \<open>Human: \<close> followed by the message as it is, and it ends with a new line
  with \<open>Assistant:\<close>. \<open>get_prompt\<close> is a function of the message and the history.
\<close>

theorem get_prompt_shape:
  "\<exists>instructions.
     get_prompt message history =
       instructions @ history @ ''\<newline>    '' @ (''Human: '' @ message) @ ''\<newline>    '' @ ''Assistant:''"
  unfolding get_prompt_def 
  by (rule exI [of _ "prompt_instructions @ ''\<newline>\<newline>    ''"]) simp

end
